theory Spec2Isabelle
  imports Main "HOL-Library.Word"
begin

section \<open>Package rsaoeap: an RSA-OAEP cipher over Go's crypto packages\<close>

text \<open>
  The package is one file, \<^verbatim>\<open>pkg/trisa/crypto/rsaoeap/rsaoeap.go\<close>: a struct
  \<^verbatim>\<open>RSA\<close> holding two key pointers, its constructor \<^verbatim>\<open>New\<close> and four methods. The
  cryptography itself is done by Go's standard library (crypto/rsa, crypto/rand,
  crypto/sha512, crypto/sha256, crypto/x509, encoding/base64), which the package
  imports. The embedding keeps that boundary: the package's own code is translated
  statement by statement, and the imported functions are an environment \<open>lib\<close> that
  every method takes as a parameter.
\<close>

subsection \<open>Go values\<close>

text \<open>A \<^verbatim>\<open>[]byte\<close>; the nil slice is the empty list.\<close>

type_synonym byte = "8 word"
type_synonym bytes = "byte list"

text \<open>
  A Go \<^verbatim>\<open>error\<close> value with the message it carries (\<^verbatim>\<open>errors.New\<close>,
  \<^verbatim>\<open>fmt.Errorf\<close>); the nil error is \<open>None\<close> of \<open>error option\<close>.
\<close>

datatype error = Error string

text \<open>
  A Go call either returns its results or panics. Functions with the results
  \<^verbatim>\<open>(v, err)\<close> return the pair as Go does, so that what is returned beside a non-nil
  error is part of the model.
\<close>

datatype 'a outcome = Returns 'a | Panics string

text \<open>
  The key structs of crypto/rsa. \<^verbatim>\<open>rsa.PrivateKey\<close> embeds its \<^verbatim>\<open>PublicKey\<close>; the
  package reads no other field.
\<close>

record PublicKey =
  rsa_N :: int
  rsa_E :: int

record PrivateKey =
  PublicKey :: PublicKey
  rsa_D :: int
  rsa_Primes :: "int list"

text \<open>
  The dynamic values of the \<^verbatim>\<open>interface{}\<close> argument of \<^verbatim>\<open>New\<close>, by the cases of its
  type switch. A pointer is an \<open>option\<close>: \<open>None\<close> is the nil pointer of that type.
  \<open>OtherType T\<close> is a value of any other dynamic type, \<open>T\<close> being what the verb
  \<^verbatim>\<open>%T\<close> prints for it (\<^verbatim>\<open><nil>\<close> for the nil interface, \<^verbatim>\<open>rsa.PublicKey\<close> for a key
  struct passed by value).
\<close>

datatype any =
    PublicKeyPtr "PublicKey option"
  | PrivateKeyPtr "PrivateKey option"
  | OtherType string

subsection \<open>The imported standard library\<close>

text \<open>
  The functions and variables the package uses from its imports, under their Go names:
  \<^verbatim>\<open>sha512.New()\<close>, \<^verbatim>\<open>rand.Reader\<close>, \<^verbatim>\<open>rsa.EncryptOAEP(hash, random, pub, msg, label)\<close>,
  \<^verbatim>\<open>rsa.DecryptOAEP(hash, random, priv, ciphertext, label)\<close>,
  \<^verbatim>\<open>x509.MarshalPKIXPublicKey(pub)\<close>, \<^verbatim>\<open>sha256.Sum256(data)\<close> and
  \<^verbatim>\<open>base64.RawStdEncoding.EncodeToString(src)\<close>. \<open>'h\<close> is the type of a
  \<^verbatim>\<open>hash.Hash\<close>, \<open>'r\<close> of an \<^verbatim>\<open>io.Reader\<close>. Nothing is assumed about them.
\<close>

record ('h, 'r) crypto =
  sha512_New :: 'h
  rand_Reader :: 'r
  EncryptOAEP :: "'h \<Rightarrow> 'r \<Rightarrow> PublicKey option \<Rightarrow> bytes \<Rightarrow> bytes \<Rightarrow> (bytes \<times> error option) outcome"
  DecryptOAEP :: "'h \<Rightarrow> 'r \<Rightarrow> PrivateKey option \<Rightarrow> bytes \<Rightarrow> bytes \<Rightarrow> (bytes \<times> error option) outcome"
  MarshalPKIXPublicKey :: "any \<Rightarrow> (bytes \<times> error option) outcome"
  Sum256 :: "bytes \<Rightarrow> bytes"
  EncodeToString :: "bytes \<Rightarrow> string"

subsection \<open>The struct and its constructor\<close>

record RSA =
  pub :: "PublicKey option"
  priv :: "PrivateKey option"

text \<open>
  \<^verbatim>\<open>New(key interface{}) (_ *RSA, err error)\<close>. The type switch looks at the dynamic
  type only, so a nil pointer of either key type takes that type's case. In the
  private-key case \<^verbatim>\<open>&t.PublicKey\<close> addresses a field through \<open>t\<close>, which panics when
  \<open>t\<close> is nil.
\<close>

definition nil_dereference :: string where
  "nil_dereference = ''runtime error: invalid memory address or nil pointer dereference''"

fun New :: "any \<Rightarrow> (RSA option \<times> error option) outcome" where
  "New (PublicKeyPtr t) = Returns (Some \<lparr>pub = t, priv = None\<rparr>, None)"
| "New (PrivateKeyPtr t) =
     (case t of
        None \<Rightarrow> Panics nil_dereference
      | Some k \<Rightarrow> Returns (Some \<lparr>pub = Some (PublicKey k), priv = Some k\<rparr>, None))"
| "New (OtherType T) =
     Returns (None, Some (Error (''could not create RSA cipher from '' @ T)))"

subsection \<open>The methods\<close>

definition Encrypt :: "('h, 'r) crypto \<Rightarrow> RSA \<Rightarrow> bytes \<Rightarrow> (bytes \<times> error option) outcome" where
  "Encrypt lib c plaintext =
     (let hash = sha512_New lib in
      case EncryptOAEP lib hash (rand_Reader lib) (pub c) plaintext [] of
        Panics m \<Rightarrow> Panics m
      | Returns (ciphertext, err) \<Rightarrow>
          if err \<noteq> None then Returns ([], err) else Returns (ciphertext, None))"

definition Decrypt :: "('h, 'r) crypto \<Rightarrow> RSA \<Rightarrow> bytes \<Rightarrow> (bytes \<times> error option) outcome" where
  "Decrypt lib c ciphertext =
     (if priv c = None
      then Returns ([], Some (Error ''private key required for decryption''))
      else
        let hash = sha512_New lib in
        case DecryptOAEP lib hash (rand_Reader lib) (priv c) ciphertext [] of
          Panics m \<Rightarrow> Panics m
        | Returns (plaintext, err) \<Rightarrow>
            if err \<noteq> None then Returns ([], err) else Returns (plaintext, None))"

definition EncryptionAlgorithm :: "RSA \<Rightarrow> string" where
  "EncryptionAlgorithm c = ''RSA-OAEP-SHA512''"

definition PublicKeySignature :: "('h, 'r) crypto \<Rightarrow> RSA \<Rightarrow> (string \<times> error option) outcome" where
  "PublicKeySignature lib c =
     (case MarshalPKIXPublicKey lib (PublicKeyPtr (pub c)) of
        Panics m \<Rightarrow> Panics m
      | Returns (data, err) \<Rightarrow>
          if err \<noteq> None then Returns ('''', err)
          else
            let digest = Sum256 lib data in
            Returns (''SHA256:'' @ EncodeToString lib digest, None))"

subsection \<open>The error classes of the specification\<close>

text \<open>
  The specification names error classes; the code has error values with messages. The
  two errors the package creates itself are these.
\<close>

definition InvalidKeyType :: "string \<Rightarrow> error" where
  "InvalidKeyType T = Error (''could not create RSA cipher from '' @ T)"

definition MissingPrivateKey :: error where
  "MissingPrivateKey = Error ''private key required for decryption''"

subsection \<open>The fingerprint, as the specification words it\<close>

text \<open>
  The specification's fingerprint of a public key: serialise the key as a PKIX
  SubjectPublicKeyInfo in DER, hash the bytes with SHA-256, encode the digest in
  unpadded standard base64 and prefix the tag \<^verbatim>\<open>SHA256:\<close>. It fails, with the
  serialiser's error and the empty string, when the key cannot be serialised.
\<close>

definition fingerprint :: "('h, 'r) crypto \<Rightarrow> PublicKey option \<Rightarrow> (string \<times> error option) outcome" where
  "fingerprint lib k =
     (case MarshalPKIXPublicKey lib (PublicKeyPtr k) of
        Panics m \<Rightarrow> Panics m
      | Returns (der, Some e) \<Rightarrow> Returns ('''', Some e)
      | Returns (der, None) \<Rightarrow>
          Returns (''SHA256:'' @ EncodeToString lib (Sum256 lib der), None))"

subsection \<open>The invariant of the struct's doc comment\<close>

text \<open>
  \<^verbatim>\<open>RSA objects must have a public key but the private key is only required for
  decryption.\<close>
\<close>

definition has_public_key :: "RSA \<Rightarrow> bool" where
  "has_public_key c = (pub c \<noteq> None)"

subsection \<open>The key pointer inside rsa.EncryptOAEP\<close>


section \<open>What the package adds to the library\<close>

text \<open>
  \<open>Encrypt\<close> and \<open>Decrypt\<close> forward to \<^verbatim>\<open>rsa.EncryptOAEP\<close> and
  \<^verbatim>\<open>rsa.DecryptOAEP\<close> with the SHA-512 hash, the shared random reader, the held key
  and a nil label. Their own code adds one thing: beside a non-nil error the byte
  slice returned is nil, whatever the library returned there.
\<close>

lemma Encrypt_error_no_bytes:
  "Encrypt lib c plaintext = Returns (ciphertext, Some e) \<Longrightarrow> ciphertext = []"
  by (auto simp: Encrypt_def Let_def split: outcome.splits prod.splits if_splits)

lemma Decrypt_error_no_bytes:
  "Decrypt lib c ciphertext = Returns (plaintext, Some e) \<Longrightarrow> plaintext = []"
  by (auto simp: Decrypt_def Let_def split: outcome.splits prod.splits if_splits)

lemma Encrypt_success:
  "Encrypt lib c plaintext = Returns (ciphertext, None) \<longleftrightarrow>
   EncryptOAEP lib (sha512_New lib) (rand_Reader lib) (pub c) plaintext [] = Returns (ciphertext, None)"
  by (auto simp: Encrypt_def Let_def split: outcome.splits prod.splits if_splits)

lemma Decrypt_success:
  "Decrypt lib c ciphertext = Returns (plaintext, None) \<longleftrightarrow>
   priv c \<noteq> None \<and>
   DecryptOAEP lib (sha512_New lib) (rand_Reader lib) (priv c) ciphertext [] = Returns (plaintext, None)"
  by (auto simp: Decrypt_def Let_def split: outcome.splits prod.splits if_splits)

text \<open>
  A cipher built from a private key encrypts under that key's own public half, and
  both directions use the same hash and the same (nil) label. So whatever round trip
  the library gives for a key and its embedded public key, the package gives too.
\<close>

lemma round_trip_from_library:
  assumes lib: "\<And>ct. EncryptOAEP lib (sha512_New lib) (rand_Reader lib) (Some (PublicKey k)) P [] = Returns (ct, None)
            \<Longrightarrow> DecryptOAEP lib (sha512_New lib) (rand_Reader lib) (Some k) ct [] = Returns (P, None)"
    and new: "New (PrivateKeyPtr (Some k)) = Returns (Some c, None)"
    and enc: "Encrypt lib c P = Returns (ct, None)"
  shows "Decrypt lib c ct = Returns (P, None)"
proof -
  from new have c: "pub c = Some (PublicKey k)" "priv c = Some k"
    by auto
  from enc c have "EncryptOAEP lib (sha512_New lib) (rand_Reader lib) (Some (PublicKey k)) P [] = Returns (ct, None)"
    by (simp add: Encrypt_success)
  then have "DecryptOAEP lib (sha512_New lib) (rand_Reader lib) (Some k) ct [] = Returns (P, None)"
    by (rule lib)
  with c show ?thesis
    by (simp add: Decrypt_success)
qed

section \<open>Construction\<close>

text \<open>What \<open>New\<close> does on each kind of input that carries a key or has another type.\<close>

lemma New_public_key:
  "New (PublicKeyPtr (Some k)) = Returns (Some \<lparr>pub = Some k, priv = None\<rparr>, None)"
  by simp

lemma New_private_key:
  "New (PrivateKeyPtr (Some k)) = Returns (Some \<lparr>pub = Some (PublicKey k), priv = Some k\<rparr>, None)"
  by simp

lemma New_other_type:
  "New (OtherType T) = Returns (None, Some (InvalidKeyType T))"
  by (simp add: InvalidKeyType_def)

lemma New_instance_only_for_key_types:
  "New key = Returns (Some c, err) \<Longrightarrow> (\<exists>t. key = PublicKeyPtr t) \<or> (\<exists>k. key = PrivateKeyPtr (Some k))"
  by (cases key) (auto split: option.splits)

lemma New_no_private_key_only_instance:
  "New key = Returns (Some c, err) \<Longrightarrow> priv c \<noteq> None \<Longrightarrow> has_public_key c"
  by (cases key) (auto simp: has_public_key_def split: option.splits)

lemma New_of_key_has_public_key:
  "New key = Returns (Some c, err) \<Longrightarrow> key \<noteq> PublicKeyPtr None \<Longrightarrow> has_public_key c"
  by (cases key) (auto simp: has_public_key_def split: option.splits)

text \<open>
  C3. \<open>New\<close> has no check for a nil key pointer. A nil \<^verbatim>\<open>*rsa.PublicKey\<close> holds no key
  and still yields an instance with a nil error; a nil \<^verbatim>\<open>*rsa.PrivateKey\<close> has the
  private-key type and yields neither an instance nor an error value: the call panics.
\<close>

theorem New_nil_key_pointers:
  "New (PublicKeyPtr None) = Returns (Some \<lparr>pub = None, priv = None\<rparr>, None) \<and>
   New (PrivateKeyPtr None) = Panics nil_dereference"
  by simp

text \<open>
  C4. The instance that \<open>New\<close> returns for a nil \<^verbatim>\<open>*rsa.PublicKey\<close> has no public key:
  the invariant of the struct's doc comment fails on it.
\<close>

theorem New_instance_without_public_key:
  "New (PublicKeyPtr None) = Returns (Some \<lparr>pub = None, priv = None\<rparr>, None) \<and>
   \<not> has_public_key \<lparr>pub = None, priv = None\<rparr>"
  by (simp add: has_public_key_def)



section \<open>The fingerprint\<close>

text \<open>
  C6. \<open>PublicKeySignature\<close> is the specification's fingerprint of the held public
  key: a function of the public key alone (the private key plays no part, nor do the
  random reader and the OAEP functions, and the same key gives the same string), equal to \<^verbatim>\<open>SHA256:\<close> followed by the unpadded
  base64 of the SHA-256 of the key's PKIX serialisation when the key serialises, and
  failing with the serialiser's error exactly when it does not.
\<close>

theorem PublicKeySignature_fingerprint:
  "PublicKeySignature lib c = fingerprint lib (pub c) \<and>
   PublicKeySignature lib \<lparr>pub = k, priv = p\<rparr> = PublicKeySignature lib \<lparr>pub = k, priv = p'\<rparr> \<and>
   PublicKeySignature (lib\<lparr>sha512_New := h, rand_Reader := r, EncryptOAEP := f, DecryptOAEP := g\<rparr>) c =
     PublicKeySignature lib c \<and>
   ((\<exists>s. PublicKeySignature lib c = Returns (s, None)) \<longleftrightarrow>
      (\<exists>der. MarshalPKIXPublicKey lib (PublicKeyPtr (pub c)) = Returns (der, None))) \<and>
   ((\<exists>s e. PublicKeySignature lib c = Returns (s, Some e)) \<longleftrightarrow>
      (\<exists>der e. MarshalPKIXPublicKey lib (PublicKeyPtr (pub c)) = Returns (der, Some e))) \<and>
   ((\<exists>s e. PublicKeySignature lib c = Returns (s, Some e)) \<longleftrightarrow>
      (\<exists>e. PublicKeySignature lib c = Returns ([], Some e)))"
  by (auto simp: PublicKeySignature_def fingerprint_def Let_def
           split: outcome.splits prod.splits option.splits if_splits)

section \<open>Decrypt without a private key\<close>

text \<open>
  C2. A cipher constructed from a public key alone has no private key, and \<open>Decrypt\<close>
  on it (as on any instance whose private key is nil) returns the MissingPrivateKey error with a nil plaintext, whatever the
  ciphertext and whatever the library would do: the statement holds for every \<open>lib\<close>
  and every \<open>ciphertext\<close>, so neither \<^verbatim>\<open>rsa.DecryptOAEP\<close> nor the ciphertext bytes
  take part in the result.
\<close>

theorem Decrypt_public_only:
  "New (PublicKeyPtr t) = Returns (Some \<lparr>pub = t, priv = None\<rparr>, None) \<and>
   Decrypt lib \<lparr>pub = t, priv = None\<rparr> ciphertext = Returns ([], Some MissingPrivateKey) \<and>
   Decrypt lib (c\<lparr>priv := None\<rparr>) ciphertext = Returns ([], Some MissingPrivateKey)"
  by (simp add: Decrypt_def MissingPrivateKey_def)

section \<open>The algorithm name\<close>

text \<open>
  C9. \<open>EncryptionAlgorithm\<close> is the constant string \<^verbatim>\<open>RSA-OAEP-SHA512\<close> on every
  instance: it reads neither key.
\<close>

theorem EncryptionAlgorithm_constant:
  "EncryptionAlgorithm c = ''RSA-OAEP-SHA512'' \<and> EncryptionAlgorithm c = EncryptionAlgorithm c'"
  by (simp add: EncryptionAlgorithm_def)

end
